theory Spec2Isabelle
  imports Main "HOL-Library.AList"
begin

section \<open>Values, exceptions and the libraries the code calls\<close>

text \<open>
  A \<open>bytes\<close> value is the list of its bytes. A \<open>str\<close> value is represented by the
  bytes that the UTF-8 codec writes for it when it is told to pass surrogates through
  (\<open>s.encode("utf-8", "surrogatepass")\<close>): an ASCII string is its own representation,
  and the lone surrogate U+D800, which the strict codec refuses, is the three bytes
  ED A0 80. A naive \<open>datetime\<close> is a point on a discrete time line.
\<close>

type_synonym str = string
type_synonym bytes = string
type_synonym datetime = nat

text \<open>
  Every message the sources raise is a literal. The literals contain non-ASCII letters,
  so each one is a constructor, named after its text:
  \<^item> \<open>Msg_nombre_vacio\<close>: "El nombre de usuario no puede estar vacio." (usuarios.py:36)
  \<^item> \<open>Msg_rol_invalido\<close>: "El rol debe ser 'user', 'supervisor' o 'admin'." (usuarios.py:39)
  \<^item> \<open>Msg_sin_password\<close>: "El usuario no tiene contrasena configurada." (usuarios.py:69)
  \<^item> \<open>Msg_password_vacia\<close>: "La contrasena no puede estar vacia." (usuarios.py:84)
  \<^item> \<open>Msg_usuario_ya_existe\<close>: "Ya existe un usuario con ese nombre." (gestor_tareas.py:63)
  \<^item> \<open>Msg_usuario_inexistente\<close>: "Usuario inexistente." (gestor_tareas.py:85 and 108)
  \<^item> \<open>Msg_password_incorrecta\<close>: "Contrasena incorrecta." (gestor_tareas.py:88)
  \<^item> \<open>Msg_solo_admin_resetea\<close>: "Solo un admin puede resetear contrasenas." (gestor_tareas.py:104)
  \<^item> \<open>Msg_solo_admin_supervisor_crean\<close>: "Solo administradores o supervisores pueden
    crear tareas." (gestor_tareas.py:126)
  \<^item> \<open>Msg_tarea_ya_existe\<close>: "Ya existe una tarea con ese nombre." (gestor_tareas.py:132)
  \<^item> \<open>Msg_sin_permiso_asignar\<close>: "No tiene permisos para asignar tareas." (gestor_tareas.py:147)
  \<^item> \<open>Msg_usuario_o_tarea_inexistente\<close>: "Usuario o tarea inexistente." (gestor_tareas.py:153)
  \<^item> \<open>Msg_supervisor_solo_comunes\<close>: "Un supervisor solo puede asignar tareas a usuarios
    comunes." (gestor_tareas.py:157)
  \<^item> \<open>Msg_tarea_inexistente\<close>: "Tarea inexistente." (gestor_tareas.py:170 and 186)
  \<^item> \<open>Msg_solo_eliminar_finalizadas\<close>: "Solo se pueden eliminar tareas finalizadas."
    (gestor_tareas.py:189)
  \<^item> \<open>Msg_isoformat_invalido\<close>: the message of \<open>datetime.fromisoformat\<close> on a string it
    cannot parse.
  \<^item> \<open>Msg_bcrypt e\<close>: the message of the \<open>ValueError\<close> that bcrypt raises, for each of
    its two refusals: a salt or stored hash that is not in bcrypt's format ("Invalid
    salt"), and a password longer than the 72 bytes bcrypt hashes.
\<close>

datatype bcrypt_error = Invalid_salt | Password_too_long

datatype msg =
    Msg_nombre_vacio
  | Msg_rol_invalido
  | Msg_sin_password
  | Msg_password_vacia
  | Msg_usuario_ya_existe
  | Msg_usuario_inexistente
  | Msg_password_incorrecta
  | Msg_solo_admin_resetea
  | Msg_solo_admin_supervisor_crean
  | Msg_tarea_ya_existe
  | Msg_sin_permiso_asignar
  | Msg_usuario_o_tarea_inexistente
  | Msg_supervisor_solo_comunes
  | Msg_tarea_inexistente
  | Msg_solo_eliminar_finalizadas
  | Msg_isoformat_invalido
  | Msg_bcrypt bcrypt_error

text \<open>
  The exceptions. \<open>ValueError\<close> and \<open>PermissionError\<close> are the two classes that
  usuarios.py and gestor_tareas.py raise; \<open>UnicodeEncodeError\<close> and
  \<open>UnicodeDecodeError\<close> are what \<open>str.encode\<close> and \<open>bytes.decode\<close> raise, both
  subclasses of \<open>ValueError\<close>. \<open>Tarea_ValidationError\<close> and \<open>Tarea_StateError\<close> are the
  error kinds the specification gives for the task entity, whose module (tareas.py) is
  not among the sources.
\<close>

datatype exc =
    ValueError msg
  | PermissionError msg
  | UnicodeEncodeError
  | UnicodeDecodeError
  | Tarea_ValidationError
  | Tarea_StateError

text \<open>
  The class of an exception that an \<open>except\<close> clause can select on, among the two the
  sources raise: the codec's errors are caught by \<open>except ValueError\<close>.
\<close>

datatype exc_class = Cls_ValueError | Cls_PermissionError

fun clase :: "exc \<Rightarrow> exc_class option" where
  "clase (ValueError m) = Some Cls_ValueError"
| "clase (PermissionError m) = Some Cls_PermissionError"
| "clase UnicodeEncodeError = Some Cls_ValueError"
| "clase UnicodeDecodeError = Some Cls_ValueError"
| "clase Tarea_ValidationError = None"
| "clase Tarea_StateError = None"

text \<open>
  The library functions the code calls (bcrypt, the UTF-8 codec, datetime) are
  parameters, and each of them can raise: \<open>encode_utf8\<close>, \<open>decode_utf8\<close> and
  \<open>fromisoformat\<close> return \<open>None\<close> where the library raises, \<open>hashpw\<close> and
  \<open>checkpw\<close> return the refusal of bcrypt. The sources call them outside any
  \<open>try\<close>, so what they raise leaves the calling method.
\<close>

record lib =
  hashpw :: "bytes \<Rightarrow> bytes \<Rightarrow> bcrypt_error + bytes"
  checkpw :: "bytes \<Rightarrow> bytes \<Rightarrow> bcrypt_error + bool"
  encode_utf8 :: "str \<Rightarrow> bytes option"
  decode_utf8 :: "bytes \<Rightarrow> str option"
  isoformat :: "datetime \<Rightarrow> str"
  fromisoformat :: "str \<Rightarrow> datetime option"

text \<open>
  What one call draws from its environment: the string of a fresh \<open>uuid4()\<close>, the
  clock's \<open>datetime.now()\<close> and the salt of \<open>bcrypt.gensalt()\<close>.
\<close>

record fresh =
  uuid4 :: str
  now :: datetime
  gensalt :: bytes

section \<open>usuarios.py: class Usuario\<close>

record usuario =
  id_usuario :: str
  nombre :: str
  nombre_visible :: str
  rol :: str
  fecha_creacion :: datetime
  password_hash :: "bytes option"

text \<open>
  \<open>Usuario.verificar_password\<close>: the password is encoded, then checked; an exception
  of either call is the exception of the method.
\<close>

definition verificar_password :: "lib \<Rightarrow> usuario \<Rightarrow> str \<Rightarrow> exc + bool" where
  "verificar_password L u a_password =
     (case password_hash u of
        None \<Rightarrow> Inl (ValueError Msg_sin_password)
      | Some h \<Rightarrow>
          (case encode_utf8 L a_password of
             None \<Rightarrow> Inl UnicodeEncodeError
           | Some b \<Rightarrow>
               (case checkpw L b h of
                  Inl e \<Rightarrow> Inl (ValueError (Msg_bcrypt e))
                | Inr ok \<Rightarrow> Inr ok)))"

text \<open>
  \<open>Usuario.cambiar_password\<close>: the salt is drawn, the password is encoded, then
  hashed; the hash is stored only when neither call raises.
\<close>

definition cambiar_password :: "lib \<Rightarrow> fresh \<Rightarrow> usuario \<Rightarrow> str \<Rightarrow> exc + usuario" where
  "cambiar_password L F u nueva_password =
     (if nueva_password = [] then Inl (ValueError Msg_password_vacia)
      else
        (case encode_utf8 L nueva_password of
           None \<Rightarrow> Inl UnicodeEncodeError
         | Some b \<Rightarrow>
             (case hashpw L b (gensalt F) of
                Inl e \<Rightarrow> Inl (ValueError (Msg_bcrypt e))
              | Inr h \<Rightarrow> Inr (u\<lparr>password_hash := Some h\<rparr>))))"

definition resetear_password :: "usuario \<Rightarrow> usuario" where
  "resetear_password u = u\<lparr>password_hash := None\<rparr>"

definition es_admin :: "usuario \<Rightarrow> bool" where
  "es_admin u = (rol u = ''admin'')"

definition es_supervisor :: "usuario \<Rightarrow> bool" where
  "es_supervisor u = (rol u = ''supervisor'')"

text \<open>
  \<open>Usuario.__init__\<close>. \<open>user_id or str(uuid4())\<close> takes the fresh identifier also for
  an empty \<open>user_id\<close>; a \<open>datetime\<close> is never falsy.
\<close>

definition usuario_init ::
  "lib \<Rightarrow> fresh \<Rightarrow> str \<Rightarrow> str \<Rightarrow> str \<Rightarrow> str option \<Rightarrow> str option \<Rightarrow> datetime option
     \<Rightarrow> exc + usuario" where
  "usuario_init L F a_nombre a_nombre_visible a_rol a_password a_user_id a_fecha_creacion =
     (if a_nombre = [] then Inl (ValueError Msg_nombre_vacio)
      else if a_rol \<notin> set [''user'', ''supervisor'', ''admin'']
        then Inl (ValueError Msg_rol_invalido)
      else
        let u = \<lparr> id_usuario = (case a_user_id of
                                  None \<Rightarrow> uuid4 F
                                | Some i \<Rightarrow> if i = [] then uuid4 F else i),
                  nombre = a_nombre,
                  nombre_visible = a_nombre_visible,
                  rol = a_rol,
                  fecha_creacion = (case a_fecha_creacion of None \<Rightarrow> now F | Some d \<Rightarrow> d),
                  password_hash = None \<rparr>
        in (case a_password of
              None \<Rightarrow> Inr u
            | Some p \<Rightarrow> cambiar_password L F u p))"

text \<open>The dictionary of \<open>to_dict\<close>: its six keys, with the types of their values.\<close>

record usuario_dict =
  d_id :: str
  d_nombre :: str
  d_nombre_visible :: str
  d_rol :: str
  d_password_hash :: "str option"
  d_fecha_creacion :: str

definition to_dict :: "lib \<Rightarrow> usuario \<Rightarrow> exc + usuario_dict" where
  "to_dict L u =
     (case (case password_hash u of
              None \<Rightarrow> Inr None
            | Some h \<Rightarrow> (case decode_utf8 L h of
                           None \<Rightarrow> Inl UnicodeDecodeError
                         | Some s \<Rightarrow> Inr (Some s))) of
        Inl e \<Rightarrow> Inl e
      | Inr ph \<Rightarrow>
          Inr \<lparr> d_id = id_usuario u,
                d_nombre = nombre u,
                d_nombre_visible = nombre_visible u,
                d_rol = rol u,
                d_password_hash = ph,
                d_fecha_creacion = isoformat L (fecha_creacion u) \<rparr>)"

text \<open>
  \<open>Usuario.from_dict\<close>: the arguments of the constructor call are evaluated first
  (\<open>fromisoformat\<close> among them), the constructor runs with \<open>password=None\<close>, and the
  stored hash is encoded and assigned afterwards.
\<close>

definition from_dict :: "lib \<Rightarrow> fresh \<Rightarrow> usuario_dict \<Rightarrow> exc + usuario" where
  "from_dict L F d =
     (case fromisoformat L (d_fecha_creacion d) of
        None \<Rightarrow> Inl (ValueError Msg_isoformat_invalido)
      | Some dt \<Rightarrow>
          (case usuario_init L F (d_nombre d) (d_nombre_visible d) (d_rol d) None
                  (Some (d_id d)) (Some dt) of
             Inl e \<Rightarrow> Inl e
           | Inr u \<Rightarrow>
               (case d_password_hash d of
                  None \<Rightarrow> Inr u
                | Some s \<Rightarrow>
                    (case encode_utf8 L s of
                       None \<Rightarrow> Inl UnicodeEncodeError
                     | Some b \<Rightarrow> Inr (u\<lparr>password_hash := Some b\<rparr>)))))"

section \<open>The task entity and the storage helpers\<close>

text \<open>
  tareas.py and utils.py are imported by gestor_tareas.py but are not among the
  sources. What the service calls of them is modelled from the specification
  (sections 3, 4.3 and 6).
\<close>

text \<open>
  Modelled from the spec: the entries of a task's \<open>usuarios_asignados\<close> (tareas.py is
  missing). "assigned_users: set of user references (by id/name)"; the fields are those
  of \<open>TareaUserRef\<close> in api/schemas.py, the fields of a user that no operation changes.
\<close>

record usuario_ref =
  ref_id :: str
  ref_nombre :: str
  ref_nombre_visible :: str
  ref_rol :: str

text \<open>
  Modelled from the spec: the reference a task keeps of a user it is given (tareas.py
  is missing).
\<close>

definition ref_de :: "usuario \<Rightarrow> usuario_ref" where
  "ref_de u = \<lparr> ref_id = id_usuario u, ref_nombre = nombre u,
               ref_nombre_visible = nombre_visible u, ref_rol = rol u \<rparr>"

text \<open>
  Modelled from the spec: a comment of a task (tareas.py is missing).
  "comments: ordered sequence of (text, author reference, timestamp)."
\<close>

record comentario =
  texto :: str
  autor :: usuario_ref
  fecha :: datetime

text \<open>
  Modelled from the spec: the fields of \<open>Tarea\<close> (tareas.py is missing): name,
  description, status ('pendiente' or 'finalizada', the strings gestor_tareas.py
  compares with), creation date, assigned users, comments.
\<close>

record tarea =
  t_nombre :: str
  t_descripcion :: str
  t_estado :: str
  t_fecha_creacion :: datetime
  usuarios_asignados :: "usuario_ref list"
  comentarios :: "comentario list"

text \<open>
  Modelled from the spec: the constructor of \<open>Tarea\<close> (tareas.py is missing).
  "Constructor validates name non-empty; initial status = pending."
\<close>

definition tarea_init :: "fresh \<Rightarrow> str \<Rightarrow> str \<Rightarrow> exc + tarea" where
  "tarea_init F a_nombre a_descripcion =
     (if a_nombre = [] then Inl Tarea_ValidationError
      else Inr \<lparr> t_nombre = a_nombre,
                 t_descripcion = a_descripcion,
                 t_estado = ''pendiente'',
                 t_fecha_creacion = now F,
                 usuarios_asignados = [],
                 comentarios = [] \<rparr>)"

text \<open>
  Modelled from the spec: \<open>Tarea.agregar_usuario\<close> (tareas.py is missing).
  "assign(user): adds user reference to assigned_users if absent (idempotent for
  repeated assignment of the same user); no role check here."
\<close>

definition agregar_usuario :: "tarea \<Rightarrow> usuario \<Rightarrow> tarea" where
  "agregar_usuario t u =
     (if id_usuario u \<in> set (map ref_id (usuarios_asignados t)) then t
      else t\<lparr>usuarios_asignados := usuarios_asignados t @ [ref_de u]\<rparr>)"

text \<open>
  Modelled from the spec: the call \<open>tarea.cambiar_estado("finalizada")\<close> (tareas.py is
  missing). "finish(): fails with StateError if already finished; otherwise transitions
  to finished."
\<close>

definition cambiar_estado_finalizada :: "tarea \<Rightarrow> exc + tarea" where
  "cambiar_estado_finalizada t =
     (if t_estado t = ''finalizada'' then Inl Tarea_StateError
      else Inr (t\<lparr>t_estado := ''finalizada''\<rparr>))"

text \<open>
  Modelled from the spec: the value \<open>Tarea.obtener_detalle\<close> returns (tareas.py is
  missing): one field for each field of the task.
\<close>

record detalle =
  det_nombre :: str
  det_descripcion :: str
  det_estado :: str
  det_fecha_creacion :: datetime
  det_usuarios_asignados :: "usuario_ref list"
  det_comentarios :: "comentario list"

text \<open>
  Modelled from the spec: \<open>Tarea.obtener_detalle\<close> (tareas.py is missing).
  "detail(): produces an immutable snapshot (all fields, assigned users, comments)."
\<close>

definition obtener_detalle :: "tarea \<Rightarrow> detalle" where
  "obtener_detalle t =
     \<lparr> det_nombre = t_nombre t,
       det_descripcion = t_descripcion t,
       det_estado = t_estado t,
       det_fecha_creacion = t_fecha_creacion t,
       det_usuarios_asignados = usuarios_asignados t,
       det_comentarios = comentarios t \<rparr>"

section \<open>gestor_tareas.py: class GestorTareas\<close>

text \<open>
  Every write to a file is recorded, in order, besides changing the file.
\<close>

datatype escritura = Escribe_usuarios_dat | Escribe_tareas_dat | Escribe_historico

text \<open>
  The service and the three files it owns. The two dictionaries keep their insertion
  order (\<open>list(d.values())\<close> is what gets saved), so they are association lists:
  \<open>d[k] = v\<close> is \<open>AList.update\<close>, \<open>del d[k]\<close> is \<open>AList.delete\<close>, \<open>d.get(k)\<close> is
  \<open>map_of\<close>. A file that does not exist is \<open>None\<close>.
\<close>

record mundo =
  usuarios :: "(str \<times> usuario) list"
  tareas :: "(str \<times> tarea) list"
  usuarios_dat :: "usuario list option"
  tareas_dat :: "tarea list option"
  historico_json :: "detalle list option"
  escrituras :: "escritura list"

text \<open>
  Modelled from the spec: \<open>utils.cargar_datos\<close> (utils.py is missing).
  "load_all(): returns empty collections if no prior snapshot exists."
\<close>

definition cargar_datos :: "'a list option \<Rightarrow> 'a list" where
  "cargar_datos f = (case f of None \<Rightarrow> [] | Some xs \<Rightarrow> xs)"

text \<open>
  Modelled from the spec: \<open>utils.leer_json\<close> (utils.py is missing).
  "read_archive() -> ordered sequence of entries"; the caller's \<open>default\<close> stands for a
  file that does not exist.
\<close>

definition leer_json :: "'a list option \<Rightarrow> 'a list \<Rightarrow> 'a list" where
  "leer_json f a_default = (case f of None \<Rightarrow> a_default | Some xs \<Rightarrow> xs)"

text \<open>
  Modelled from the spec: \<open>utils.escribir_json\<close> (utils.py is missing), on the path of
  the archive: the file becomes the list written.
\<close>

definition escribir_json_historico :: "mundo \<Rightarrow> detalle list \<Rightarrow> mundo" where
  "escribir_json_historico w h =
     w\<lparr>historico_json := Some h, escrituras := escrituras w @ [Escribe_historico]\<rparr>"

text \<open>
  Modelled from the spec: \<open>utils.guardar_datos\<close> (utils.py is missing), on the path of
  the users. "save_all(Users, Tasks): overwrites the full snapshot."
\<close>

definition guardar_datos_usuarios :: "mundo \<Rightarrow> usuario list \<Rightarrow> mundo" where
  "guardar_datos_usuarios w us =
     w\<lparr>usuarios_dat := Some us, escrituras := escrituras w @ [Escribe_usuarios_dat]\<rparr>"

text \<open>
  Modelled from the spec: \<open>utils.guardar_datos\<close> (utils.py is missing), on the path of
  the tasks. "save_all(Users, Tasks): overwrites the full snapshot."
\<close>

definition guardar_datos_tareas :: "mundo \<Rightarrow> tarea list \<Rightarrow> mundo" where
  "guardar_datos_tareas w ts =
     w\<lparr>tareas_dat := Some ts, escrituras := escrituras w @ [Escribe_tareas_dat]\<rparr>"

text \<open>The dictionary comprehension \<open>{key(x): x for x in xs}\<close>.\<close>

definition dict_por :: "('a \<Rightarrow> str) \<Rightarrow> 'a list \<Rightarrow> (str \<times> 'a) list" where
  "dict_por key xs = foldl (\<lambda>d x. AList.update (key x) x d) [] xs"

text \<open>
  \<open>GestorTareas.__init__\<close>, on the three files as they are found on disk.
\<close>

definition gestor_init ::
  "usuario list option \<Rightarrow> tarea list option \<Rightarrow> detalle list option \<Rightarrow> mundo" where
  "gestor_init f_usuarios f_tareas f_historico =
     \<lparr> usuarios = dict_por nombre (cargar_datos f_usuarios),
       tareas = dict_por t_nombre (cargar_datos f_tareas),
       usuarios_dat = f_usuarios,
       tareas_dat = f_tareas,
       historico_json = f_historico,
       escrituras = [] \<rparr>"

definition guardar_todo :: "mundo \<Rightarrow> mundo" where
  "guardar_todo w =
     (let w1 = guardar_datos_usuarios w (map snd (usuarios w))
      in guardar_datos_tareas w1 (map snd (tareas w1)))"

text \<open>
  Each operation returns what the call returns or raises, and the state it leaves.
\<close>

definition crear_usuario ::
  "lib \<Rightarrow> fresh \<Rightarrow> mundo \<Rightarrow> str \<Rightarrow> str \<Rightarrow> str \<Rightarrow> str option \<Rightarrow> (exc + usuario) \<times> mundo" where
  "crear_usuario L F w a_nombre a_nombre_visible a_rol a_password =
     (if a_nombre \<in> set (map fst (usuarios w))
        then (Inl (ValueError Msg_usuario_ya_existe), w)
      else
        (case usuario_init L F a_nombre a_nombre_visible a_rol a_password None None of
           Inl e \<Rightarrow> (Inl e, w)
         | Inr u \<Rightarrow>
             (Inr u, guardar_todo (w\<lparr>usuarios := AList.update a_nombre u (usuarios w)\<rparr>))))"

definition autenticar_usuario :: "lib \<Rightarrow> mundo \<Rightarrow> str \<Rightarrow> str \<Rightarrow> exc + usuario" where
  "autenticar_usuario L w a_nombre a_password =
     (case map_of (usuarios w) a_nombre of
        None \<Rightarrow> Inl (ValueError Msg_usuario_inexistente)
      | Some u \<Rightarrow>
          (case verificar_password L u a_password of
             Inl e \<Rightarrow> Inl e
           | Inr ok \<Rightarrow>
               if \<not> ok then Inl (ValueError Msg_password_incorrecta) else Inr u))"

definition resetear_password_usuario ::
  "mundo \<Rightarrow> usuario \<Rightarrow> str \<Rightarrow> (exc + unit) \<times> mundo" where
  "resetear_password_usuario w admin nombre_usuario =
     (if \<not> es_admin admin then (Inl (PermissionError Msg_solo_admin_resetea), w)
      else
        (case map_of (usuarios w) nombre_usuario of
           None \<Rightarrow> (Inl (ValueError Msg_usuario_inexistente), w)
         | Some u \<Rightarrow>
             (Inr (),
              guardar_todo
                (w\<lparr>usuarios :=
                     AList.update nombre_usuario (resetear_password u) (usuarios w)\<rparr>))))"

definition crear_tarea ::
  "fresh \<Rightarrow> mundo \<Rightarrow> str \<Rightarrow> str \<Rightarrow> usuario \<Rightarrow> (exc + tarea) \<times> mundo" where
  "crear_tarea F w a_nombre a_descripcion actor =
     (if \<not> (es_admin actor \<or> es_supervisor actor)
        then (Inl (PermissionError Msg_solo_admin_supervisor_crean), w)
      else if a_nombre \<in> set (map fst (tareas w))
        then (Inl (ValueError Msg_tarea_ya_existe), w)
      else
        (case tarea_init F a_nombre a_descripcion of
           Inl e \<Rightarrow> (Inl e, w)
         | Inr t \<Rightarrow>
             (Inr t, guardar_todo (w\<lparr>tareas := AList.update a_nombre t (tareas w)\<rparr>))))"

definition asignar_usuario_tarea ::
  "mundo \<Rightarrow> usuario \<Rightarrow> str \<Rightarrow> str \<Rightarrow> (exc + unit) \<times> mundo" where
  "asignar_usuario_tarea w actor nombre_usuario nombre_tarea =
     (if \<not> (es_admin actor \<or> es_supervisor actor)
        then (Inl (PermissionError Msg_sin_permiso_asignar), w)
      else
        (case (map_of (usuarios w) nombre_usuario, map_of (tareas w) nombre_tarea) of
           (Some u, Some t) \<Rightarrow>
             if es_supervisor actor \<and> rol u \<noteq> ''user''
               then (Inl (PermissionError Msg_supervisor_solo_comunes), w)
             else
               (Inr (),
                guardar_todo
                  (w\<lparr>tareas := AList.update nombre_tarea (agregar_usuario t u) (tareas w)\<rparr>))
         | _ \<Rightarrow> (Inl (ValueError Msg_usuario_o_tarea_inexistente), w)))"

definition finalizar_tarea :: "mundo \<Rightarrow> str \<Rightarrow> (exc + unit) \<times> mundo" where
  "finalizar_tarea w nombre_tarea =
     (case map_of (tareas w) nombre_tarea of
        None \<Rightarrow> (Inl (ValueError Msg_tarea_inexistente), w)
      | Some t \<Rightarrow>
          (case cambiar_estado_finalizada t of
             Inl e \<Rightarrow> (Inl e, w)
           | Inr t' \<Rightarrow>
               let w1 = w\<lparr>tareas := AList.update nombre_tarea t' (tareas w)\<rparr>;
                   historico = leer_json (historico_json w1) [];
                   w2 = escribir_json_historico w1 (historico @ [obtener_detalle t'])
               in (Inr (), guardar_todo w2)))"

definition eliminar_tarea :: "mundo \<Rightarrow> str \<Rightarrow> (exc + unit) \<times> mundo" where
  "eliminar_tarea w nombre_tarea =
     (case map_of (tareas w) nombre_tarea of
        None \<Rightarrow> (Inl (ValueError Msg_tarea_inexistente), w)
      | Some t \<Rightarrow>
          if t_estado t \<noteq> ''finalizada''
            then (Inl (ValueError Msg_solo_eliminar_finalizadas), w)
          else (Inr (), guardar_todo (w\<lparr>tareas := AList.delete nombre_tarea (tareas w)\<rparr>)))"

section \<open>Sequences of service operations\<close>

text \<open>
  The mutating operations of the service, with their arguments, and the state each one
  leaves (whether it returns or raises).
\<close>

datatype operacion =
    Op_crear_usuario str str str "str option"
  | Op_resetear_password_usuario usuario str
  | Op_crear_tarea str str usuario
  | Op_asignar_usuario_tarea usuario str str
  | Op_finalizar_tarea str
  | Op_eliminar_tarea str

fun ejecutar :: "lib \<Rightarrow> fresh \<Rightarrow> operacion \<Rightarrow> mundo \<Rightarrow> mundo" where
  "ejecutar L F (Op_crear_usuario n nv r pw) w = snd (crear_usuario L F w n nv r pw)"
| "ejecutar L F (Op_resetear_password_usuario a n) w = snd (resetear_password_usuario w a n)"
| "ejecutar L F (Op_crear_tarea n d a) w = snd (crear_tarea F w n d a)"
| "ejecutar L F (Op_asignar_usuario_tarea a nu nt) w = snd (asignar_usuario_tarea w a nu nt)"
| "ejecutar L F (Op_finalizar_tarea n) w = snd (finalizar_tarea w n)"
| "ejecutar L F (Op_eliminar_tarea n) w = snd (eliminar_tarea w n)"

fun ejecutar_todas :: "lib \<Rightarrow> (fresh \<times> operacion) list \<Rightarrow> mundo \<Rightarrow> mundo" where
  "ejecutar_todas L [] w = w"
| "ejecutar_todas L ((F, op) # ops) w = ejecutar_todas L ops (ejecutar L F op w)"

text \<open>
  The states the service can be in: the one \<open>__init__\<close> loads from whatever the files
  hold, and every state an operation leaves from such a state.
\<close>

inductive alcanzable :: "lib \<Rightarrow> mundo \<Rightarrow> bool" for L :: lib where
  inicial: "alcanzable L (gestor_init f_usuarios f_tareas f_historico)"
| paso: "alcanzable L w \<Longrightarrow> alcanzable L (ejecutar L F op w)"

text \<open>The invariant on the users of the class: what \<open>__init__\<close> checks or ensures.\<close>

definition usuario_bien_formado :: "usuario \<Rightarrow> bool" where
  "usuario_bien_formado u \<longleftrightarrow>
     nombre u \<noteq> [] \<and> rol u \<in> set [''user'', ''supervisor'', ''admin''] \<and> id_usuario u \<noteq> []"

text \<open>
  The two dictionaries are keyed by name: every entry of \<open>usuarios\<close> is stored under the
  \<open>nombre\<close> of its user, every entry of \<open>tareas\<close> under the \<open>nombre\<close> of its task.
\<close>

definition claves_consistentes :: "mundo \<Rightarrow> bool" where
  "claves_consistentes w \<longleftrightarrow>
     list_all (\<lambda>(k, u). nombre u = k) (usuarios w) \<and>
     list_all (\<lambda>(k, t). t_nombre t = k) (tareas w)"


section \<open>Concrete inputs\<close>

text \<open>
  Whether a string holds a surrogate: in the representation of strings, a byte ED
  followed by a byte from A0 to BF (bits 7 and 5 set, bit 6 clear).
\<close>

fun tiene_surrogate :: "string \<Rightarrow> bool" where
  "tiene_surrogate (a # b # cs) =
     ((a = CHR 0xED \<and> digit7 b \<and> \<not> digit6 b \<and> digit5 b) \<or> tiene_surrogate (b # cs))"
| "tiene_surrogate cs = False"

text \<open>
  An instance of the library record and of the environment, on which the definitions
  can be evaluated. It keeps the refusals of the libraries: the strict UTF-8 codec
  refuses a string with a surrogate; bcrypt (version 5.0.0) refuses a password of more
  than 72 bytes, and a salt or a stored hash that is not in its format (here: a salt is
  two bytes, a hash is a salt followed by something). In place of the hash itself stands
  the salt followed by the password; a time stamp is written in unary.
\<close>

definition lib_ejemplo :: lib where
  "lib_ejemplo =
     \<lparr> hashpw = (\<lambda>p s. if 72 < length p then Inl Password_too_long
                        else if length s \<noteq> 2 then Inl Invalid_salt
                        else Inr (s @ p)),
       checkpw = (\<lambda>p h. if 72 < length p then Inl Password_too_long
                         else if length h < 2 then Inl Invalid_salt
                         else Inr (drop 2 h = p)),
       encode_utf8 = (\<lambda>s. if tiene_surrogate s then None else Some s),
       decode_utf8 = (\<lambda>b. if tiene_surrogate b then None else Some b),
       isoformat = (\<lambda>d. replicate d (CHR ''I'')),
       fromisoformat = (\<lambda>s. Some (length s)) \<rparr>"

text \<open>
  Two passwords the libraries refuse: the string of the lone surrogate U+D800, and 73
  letters 'a'.
\<close>

definition password_surrogate :: str where
  "password_surrogate = [CHR 0xED, CHR 0xA0, CHR 0x80]"

definition password_73 :: str where
  "password_73 = replicate 73 (CHR ''a'')"

definition fresh_ejemplo :: fresh where
  "fresh_ejemplo = \<lparr> uuid4 = ''u-1'', now = 3, gensalt = ''$$'' \<rparr>"

definition usuario_ana :: usuario where
  "usuario_ana =
     \<lparr> id_usuario = ''u-ana'', nombre = ''ana'', nombre_visible = ''Ana'', rol = ''user'',
       fecha_creacion = 1, password_hash = None \<rparr>"

definition usuario_beto :: usuario where
  "usuario_beto =
     \<lparr> id_usuario = ''u-beto'', nombre = ''beto'', nombre_visible = ''Beto'',
       rol = ''supervisor'', fecha_creacion = 2, password_hash = Some ''$$clave'' \<rparr>"

definition usuario_root :: usuario where
  "usuario_root =
     \<lparr> id_usuario = ''u-root'', nombre = ''root'', nombre_visible = ''Root'',
       rol = ''admin'', fecha_creacion = 0, password_hash = Some ''$$x'' \<rparr>"

definition tarea_t1 :: tarea where
  "tarea_t1 =
     \<lparr> t_nombre = ''T1'', t_descripcion = ''primera'', t_estado = ''pendiente'',
       t_fecha_creacion = 2, usuarios_asignados = [], comentarios = [] \<rparr>"

definition mundo_ejemplo :: mundo where
  "mundo_ejemplo =
     gestor_init (Some [usuario_root, usuario_ana, usuario_beto]) (Some [tarea_t1]) None"

definition tarea_t2 :: tarea where
  "tarea_t2 =
     \<lparr> t_nombre = ''T2'', t_descripcion = ''segunda'', t_estado = ''pendiente'',
       t_fecha_creacion = 3, usuarios_asignados = [], comentarios = [] \<rparr>"

definition ops_ejemplo :: "(fresh \<times> operacion) list" where
  "ops_ejemplo =
     [(fresh_ejemplo, Op_finalizar_tarea ''T1''),
      (fresh_ejemplo, Op_crear_tarea ''T1'' ''de nuevo'' usuario_root),
      (fresh_ejemplo, Op_asignar_usuario_tarea usuario_root ''ana'' ''T1''),
      (fresh_ejemplo, Op_finalizar_tarea ''T1'')]"

section \<open>Basic facts\<close>

lemma mundo_ejemplo_simps:
  "usuarios mundo_ejemplo =
     [(''root'', usuario_root), (''ana'', usuario_ana), (''beto'', usuario_beto)]"
  "tareas mundo_ejemplo = [(''T1'', tarea_t1)]"
  "usuarios_dat mundo_ejemplo = Some [usuario_root, usuario_ana, usuario_beto]"
  "tareas_dat mundo_ejemplo = Some [tarea_t1]"
  "historico_json mundo_ejemplo = None"
  "escrituras mundo_ejemplo = []"
  by (simp_all add: mundo_ejemplo_def gestor_init_def dict_por_def cargar_datos_def
      usuario_root_def usuario_ana_def usuario_beto_def tarea_t1_def)

lemma clave_presente: "map_of al k = Some v \<Longrightarrow> k \<in> fst ` set al"
  by (metis map_of_eq_None_iff option.distinct(1))

lemma guardar_todo_simps:
  "usuarios (guardar_todo w) = usuarios w"
  "tareas (guardar_todo w) = tareas w"
  "usuarios_dat (guardar_todo w) = Some (map snd (usuarios w))"
  "tareas_dat (guardar_todo w) = Some (map snd (tareas w))"
  "historico_json (guardar_todo w) = historico_json w"
  "escrituras (guardar_todo w) = escrituras w @ [Escribe_usuarios_dat, Escribe_tareas_dat]"
  by (simp_all add: guardar_todo_def guardar_datos_usuarios_def guardar_datos_tareas_def)

lemma agregar_usuario_simps:
  "t_nombre (agregar_usuario t u) = t_nombre t"
  "t_estado (agregar_usuario t u) = t_estado t"
  "id_usuario u \<in> ref_id ` set (usuarios_asignados (agregar_usuario t u))"
  by (simp_all add: agregar_usuario_def ref_de_def)

section \<open>Authentication (C1)\<close>

text \<open>
  C1, as the code has it: \<open>autenticar_usuario\<close> raises \<open>ValueError\<close> with the message
  "Usuario inexistente." when no user has the name; \<open>ValueError\<close> with "El usuario no
  tiene contrasena configurada." (raised by \<open>verificar_password\<close> and not caught) when
  the user has no hash; the exception of the library, not caught either, when the
  password cannot be encoded (\<open>UnicodeEncodeError\<close>) or bcrypt refuses the password or
  the stored hash (its \<open>ValueError\<close>); \<open>ValueError\<close> with "Contrasena incorrecta." when
  bcrypt answers that the password does not match; and it returns the user when bcrypt
  answers that it matches. Every failure is an exception of the class \<open>ValueError\<close>:
  the failures differ in their message, not in their kind.
\<close>

theorem autenticar_usuario_errores:
  "(map_of (usuarios w) n = None \<longrightarrow>
      autenticar_usuario L w n p = Inl (ValueError Msg_usuario_inexistente)) \<and>
   (\<forall>u. map_of (usuarios w) n = Some u \<and> password_hash u = None \<longrightarrow>
      autenticar_usuario L w n p = Inl (ValueError Msg_sin_password)) \<and>
   (\<forall>u h. map_of (usuarios w) n = Some u \<and> password_hash u = Some h \<and>
        encode_utf8 L p = None \<longrightarrow>
      autenticar_usuario L w n p = Inl UnicodeEncodeError) \<and>
   (\<forall>u h b e. map_of (usuarios w) n = Some u \<and> password_hash u = Some h \<and>
        encode_utf8 L p = Some b \<and> checkpw L b h = Inl e \<longrightarrow>
      autenticar_usuario L w n p = Inl (ValueError (Msg_bcrypt e))) \<and>
   (\<forall>u h b. map_of (usuarios w) n = Some u \<and> password_hash u = Some h \<and>
        encode_utf8 L p = Some b \<and> checkpw L b h = Inr False \<longrightarrow>
      autenticar_usuario L w n p = Inl (ValueError Msg_password_incorrecta)) \<and>
   (\<forall>u h b. map_of (usuarios w) n = Some u \<and> password_hash u = Some h \<and>
        encode_utf8 L p = Some b \<and> checkpw L b h = Inr True \<longrightarrow>
      autenticar_usuario L w n p = Inr u) \<and>
   (\<forall>e. autenticar_usuario L w n p = Inl e \<longrightarrow> clase e = Some Cls_ValueError) \<and>
   ValueError Msg_sin_password \<noteq> ValueError Msg_password_incorrecta \<and>
   ValueError Msg_sin_password \<noteq> ValueError Msg_usuario_inexistente \<and>
   ValueError Msg_password_incorrecta \<noteq> ValueError Msg_usuario_inexistente"
proof (intro conjI allI impI)
  fix e
  assume "autenticar_usuario L w n p = Inl e"
  then show "clase e = Some Cls_ValueError"
    by (auto simp: autenticar_usuario_def verificar_password_def
        split: option.splits sum.splits if_splits)
qed (simp_all add: autenticar_usuario_def verificar_password_def)

theorem autenticar_usuario_errores_witness:
  "map_of (usuarios mundo_ejemplo) ''nadie'' = None \<and>
   autenticar_usuario lib_ejemplo mundo_ejemplo ''nadie'' ''x'' =
     Inl (ValueError Msg_usuario_inexistente) \<and>
   map_of (usuarios mundo_ejemplo) ''ana'' = Some usuario_ana \<and>
   password_hash usuario_ana = None \<and>
   autenticar_usuario lib_ejemplo mundo_ejemplo ''ana'' ''x'' =
     Inl (ValueError Msg_sin_password) \<and>
   map_of (usuarios mundo_ejemplo) ''beto'' = Some usuario_beto \<and>
   password_hash usuario_beto = Some ''$$clave'' \<and>
   encode_utf8 lib_ejemplo password_surrogate = None \<and>
   autenticar_usuario lib_ejemplo mundo_ejemplo ''beto'' password_surrogate =
     Inl UnicodeEncodeError \<and>
   encode_utf8 lib_ejemplo password_73 = Some password_73 \<and>
   checkpw lib_ejemplo password_73 ''$$clave'' = Inl Password_too_long \<and>
   autenticar_usuario lib_ejemplo mundo_ejemplo ''beto'' password_73 =
     Inl (ValueError (Msg_bcrypt Password_too_long)) \<and>
   encode_utf8 lib_ejemplo ''otra'' = Some ''otra'' \<and>
   checkpw lib_ejemplo ''otra'' ''$$clave'' = Inr False \<and>
   autenticar_usuario lib_ejemplo mundo_ejemplo ''beto'' ''otra'' =
     Inl (ValueError Msg_password_incorrecta) \<and>
   encode_utf8 lib_ejemplo ''clave'' = Some ''clave'' \<and>
   checkpw lib_ejemplo ''clave'' ''$$clave'' = Inr True \<and>
   autenticar_usuario lib_ejemplo mundo_ejemplo ''beto'' ''clave'' = Inr usuario_beto"
proof -
  have m: "map_of (usuarios mundo_ejemplo) ''nadie'' = None"
    "map_of (usuarios mundo_ejemplo) ''ana'' = Some usuario_ana"
    "map_of (usuarios mundo_ejemplo) ''beto'' = Some usuario_beto"
    by (simp_all add: mundo_ejemplo_simps)
  have h: "password_hash usuario_ana = None" "password_hash usuario_beto = Some ''$$clave''"
    by (simp_all add: usuario_ana_def usuario_beto_def)
  have e: "encode_utf8 lib_ejemplo password_surrogate = None"
    "encode_utf8 lib_ejemplo password_73 = Some password_73"
    "encode_utf8 lib_ejemplo ''otra'' = Some ''otra''"
    "encode_utf8 lib_ejemplo ''clave'' = Some ''clave''"
    by (simp_all add: lib_ejemplo_def password_surrogate_def password_73_def
        numeral_eq_Suc)
  have c: "checkpw lib_ejemplo password_73 ''$$clave'' = Inl Password_too_long"
    "checkpw lib_ejemplo ''otra'' ''$$clave'' = Inr False"
    "checkpw lib_ejemplo ''clave'' ''$$clave'' = Inr True"
    by (simp_all add: lib_ejemplo_def password_73_def)
  have 1: "autenticar_usuario lib_ejemplo mundo_ejemplo ''nadie'' ''x'' =
     Inl (ValueError Msg_usuario_inexistente)"
    using m(1) autenticar_usuario_errores [of mundo_ejemplo "''nadie''" lib_ejemplo "''x''"]
    by blast
  have 2: "autenticar_usuario lib_ejemplo mundo_ejemplo ''ana'' ''x'' =
     Inl (ValueError Msg_sin_password)"
    using m(2) h(1)
      autenticar_usuario_errores [of mundo_ejemplo "''ana''" lib_ejemplo "''x''"]
    by blast
  have 3: "autenticar_usuario lib_ejemplo mundo_ejemplo ''beto'' password_surrogate =
     Inl UnicodeEncodeError"
    using m(3) h(2) e(1)
      autenticar_usuario_errores [of mundo_ejemplo "''beto''" lib_ejemplo password_surrogate]
    by blast
  have 4: "autenticar_usuario lib_ejemplo mundo_ejemplo ''beto'' password_73 =
     Inl (ValueError (Msg_bcrypt Password_too_long))"
    using m(3) h(2) e(2) c(1)
      autenticar_usuario_errores [of mundo_ejemplo "''beto''" lib_ejemplo password_73]
    by blast
  have 5: "autenticar_usuario lib_ejemplo mundo_ejemplo ''beto'' ''otra'' =
     Inl (ValueError Msg_password_incorrecta)"
    using m(3) h(2) e(3) c(2)
      autenticar_usuario_errores [of mundo_ejemplo "''beto''" lib_ejemplo "''otra''"]
    by blast
  have 6: "autenticar_usuario lib_ejemplo mundo_ejemplo ''beto'' ''clave'' = Inr usuario_beto"
    using m(3) h(2) e(4) c(3)
      autenticar_usuario_errores [of mundo_ejemplo "''beto''" lib_ejemplo "''clave''"]
    by blast
  show ?thesis
    by (intro conjI m h e c 1 2 3 4 5 6)
qed

text \<open>
  C1 as stated fails: for ana, who has no hash, and for beto, whose hash does not match
  the password, the two exceptions have the same class.
\<close>

theorem autenticar_usuario_misma_clase_counterexample:
  "autenticar_usuario lib_ejemplo mundo_ejemplo ''ana'' ''otra'' =
     Inl (ValueError Msg_sin_password) \<and>
   autenticar_usuario lib_ejemplo mundo_ejemplo ''beto'' ''otra'' =
     Inl (ValueError Msg_password_incorrecta) \<and>
   clase (ValueError Msg_sin_password) = clase (ValueError Msg_password_incorrecta)"
  by (simp add: autenticar_usuario_def verificar_password_def mundo_ejemplo_simps
      usuario_ana_def usuario_beto_def lib_ejemplo_def)

section \<open>Assignment (C2)\<close>

text \<open>
  C2: \<open>asignar_usuario_tarea\<close> raises \<open>PermissionError\<close> when the actor is neither
  admin nor supervisor; otherwise \<open>ValueError\<close> ("Usuario o tarea inexistente.", the
  not-found error) when the user or the task is missing; otherwise \<open>PermissionError\<close>
  when the actor is a supervisor and the role of the target is not 'user'; otherwise
  (an admin with any target, a supervisor with a 'user' target) it returns, the task
  under that name is the old one with the user added to its assigned users, nothing else
  changes in memory, and both files are rewritten from the new state. A failing call
  leaves the state as it was.
\<close>

theorem asignar_usuario_tarea_casos:
  "(\<not> (es_admin actor \<or> es_supervisor actor) \<longrightarrow>
      asignar_usuario_tarea w actor nu nt = (Inl (PermissionError Msg_sin_permiso_asignar), w)) \<and>
   ((es_admin actor \<or> es_supervisor actor) \<and>
    (map_of (usuarios w) nu = None \<or> map_of (tareas w) nt = None) \<longrightarrow>
      asignar_usuario_tarea w actor nu nt
        = (Inl (ValueError Msg_usuario_o_tarea_inexistente), w)) \<and>
   (\<forall>u t. es_supervisor actor \<and> map_of (usuarios w) nu = Some u \<and>
          map_of (tareas w) nt = Some t \<and> rol u \<noteq> ''user'' \<longrightarrow>
      asignar_usuario_tarea w actor nu nt
        = (Inl (PermissionError Msg_supervisor_solo_comunes), w)) \<and>
   (\<forall>u t. (es_admin actor \<or> es_supervisor actor \<and> rol u = ''user'') \<and>
          map_of (usuarios w) nu = Some u \<and> map_of (tareas w) nt = Some t \<longrightarrow>
      (\<exists>w'. asignar_usuario_tarea w actor nu nt = (Inr (), w') \<and>
            usuarios w' = usuarios w \<and>
            map_of (tareas w') nt = Some (agregar_usuario t u) \<and>
            id_usuario u \<in> ref_id ` set (usuarios_asignados (agregar_usuario t u)) \<and>
            (\<forall>k. k \<noteq> nt \<longrightarrow> map_of (tareas w') k = map_of (tareas w) k) \<and>
            usuarios_dat w' = Some (map snd (usuarios w')) \<and>
            tareas_dat w' = Some (map snd (tareas w')) \<and>
            escrituras w' = escrituras w @ [Escribe_usuarios_dat, Escribe_tareas_dat]))"
proof (intro conjI allI impI)
  assume "\<not> (es_admin actor \<or> es_supervisor actor)"
  then show "asignar_usuario_tarea w actor nu nt
      = (Inl (PermissionError Msg_sin_permiso_asignar), w)"
    by (simp add: asignar_usuario_tarea_def)
next
  assume "(es_admin actor \<or> es_supervisor actor) \<and>
    (map_of (usuarios w) nu = None \<or> map_of (tareas w) nt = None)"
  then show "asignar_usuario_tarea w actor nu nt
      = (Inl (ValueError Msg_usuario_o_tarea_inexistente), w)"
    by (auto simp: asignar_usuario_tarea_def split: option.splits)
next
  fix u t
  assume "es_supervisor actor \<and> map_of (usuarios w) nu = Some u \<and>
          map_of (tareas w) nt = Some t \<and> rol u \<noteq> ''user''"
  then show "asignar_usuario_tarea w actor nu nt
      = (Inl (PermissionError Msg_supervisor_solo_comunes), w)"
    by (simp add: asignar_usuario_tarea_def)
next
  fix u t
  assume a: "(es_admin actor \<or> es_supervisor actor \<and> rol u = ''user'') \<and>
          map_of (usuarios w) nu = Some u \<and> map_of (tareas w) nt = Some t"
  have ns: "es_admin actor \<Longrightarrow> \<not> es_supervisor actor"
    by (simp add: es_admin_def es_supervisor_def)
  let ?w' = "guardar_todo (w\<lparr>tareas := AList.update nt (agregar_usuario t u) (tareas w)\<rparr>)"
  have r: "asignar_usuario_tarea w actor nu nt = (Inr (), ?w')"
    using a ns by (auto simp: asignar_usuario_tarea_def)
  show "\<exists>w'. asignar_usuario_tarea w actor nu nt = (Inr (), w') \<and>
            usuarios w' = usuarios w \<and>
            map_of (tareas w') nt = Some (agregar_usuario t u) \<and>
            id_usuario u \<in> ref_id ` set (usuarios_asignados (agregar_usuario t u)) \<and>
            (\<forall>k. k \<noteq> nt \<longrightarrow> map_of (tareas w') k = map_of (tareas w) k) \<and>
            usuarios_dat w' = Some (map snd (usuarios w')) \<and>
            tareas_dat w' = Some (map snd (tareas w')) \<and>
            escrituras w' = escrituras w @ [Escribe_usuarios_dat, Escribe_tareas_dat]"
    unfolding r
    by (simp add: guardar_todo_simps agregar_usuario_simps update_conv')
qed

theorem asignar_usuario_tarea_casos_witness:
  "\<not> (es_admin usuario_ana \<or> es_supervisor usuario_ana) \<and>
   asignar_usuario_tarea mundo_ejemplo usuario_ana ''ana'' ''T1''
     = (Inl (PermissionError Msg_sin_permiso_asignar), mundo_ejemplo) \<and>
   es_supervisor usuario_beto \<and> map_of (usuarios mundo_ejemplo) ''nadie'' = None \<and>
   asignar_usuario_tarea mundo_ejemplo usuario_beto ''nadie'' ''T1''
     = (Inl (ValueError Msg_usuario_o_tarea_inexistente), mundo_ejemplo) \<and>
   map_of (usuarios mundo_ejemplo) ''root'' = Some usuario_root \<and>
   map_of (tareas mundo_ejemplo) ''T1'' = Some tarea_t1 \<and> rol usuario_root \<noteq> ''user'' \<and>
   asignar_usuario_tarea mundo_ejemplo usuario_beto ''root'' ''T1''
     = (Inl (PermissionError Msg_supervisor_solo_comunes), mundo_ejemplo) \<and>
   map_of (usuarios mundo_ejemplo) ''ana'' = Some usuario_ana \<and> rol usuario_ana = ''user'' \<and>
   fst (asignar_usuario_tarea mundo_ejemplo usuario_beto ''ana'' ''T1'') = Inr () \<and>
   map_of (tareas (snd (asignar_usuario_tarea mundo_ejemplo usuario_beto ''ana'' ''T1''))) ''T1''
     = Some (tarea_t1\<lparr>usuarios_asignados := [ref_de usuario_ana]\<rparr>)"
  using asignar_usuario_tarea_casos [where actor = usuario_ana and w = mundo_ejemplo
      and nu = "''ana''" and nt = "''T1''"]
    asignar_usuario_tarea_casos [where actor = usuario_beto and w = mundo_ejemplo
      and nu = "''nadie''" and nt = "''T1''"]
    asignar_usuario_tarea_casos [where actor = usuario_beto and w = mundo_ejemplo
      and nu = "''root''" and nt = "''T1''"]
    asignar_usuario_tarea_casos [where actor = usuario_beto and w = mundo_ejemplo
      and nu = "''ana''" and nt = "''T1''"]
  by (auto simp: mundo_ejemplo_simps es_admin_def es_supervisor_def usuario_ana_def
      usuario_beto_def usuario_root_def tarea_t1_def agregar_usuario_def ref_de_def)

section \<open>Duplicate user names (C3)\<close>

text \<open>
  C3: in every state in which a user named \<open>n\<close> is stored, \<open>crear_usuario\<close> with the
  name \<open>n\<close> raises \<open>ValueError\<close> ("Ya existe un usuario con ese nombre.", the conflict
  error) whatever the other arguments are, and leaves the whole state as it was: the
  users, the stored user among them, the tasks and the files.
\<close>

theorem crear_usuario_duplicado:
  assumes "map_of (usuarios w) n = Some u"
  shows "crear_usuario L F w n nv r pw = (Inl (ValueError Msg_usuario_ya_existe), w)"
  using clave_presente [OF assms] by (simp add: crear_usuario_def)

theorem crear_usuario_duplicado_witness:
  "map_of (usuarios mundo_ejemplo) ''ana'' = Some usuario_ana \<and>
   crear_usuario lib_ejemplo fresh_ejemplo mundo_ejemplo ''ana'' ''Otra Ana'' ''admin''
       (Some ''pw'')
     = (Inl (ValueError Msg_usuario_ya_existe), mundo_ejemplo)"
proof -
  have h: "map_of (usuarios mundo_ejemplo) ''ana'' = Some usuario_ana"
    by (simp add: mundo_ejemplo_simps)
  show ?thesis using h crear_usuario_duplicado [OF h] by simp
qed

section \<open>The status of a task only advances (C4)\<close>

lemma tareas_crear_usuario:
  "tareas (snd (crear_usuario L F w n nv r pw)) = tareas w"
  by (simp add: crear_usuario_def guardar_todo_simps split: sum.splits)

lemma tareas_resetear:
  "tareas (snd (resetear_password_usuario w a n)) = tareas w"
  by (simp add: resetear_password_usuario_def guardar_todo_simps split: option.splits)

lemma tareas_crear_tarea:
  "map_of (tareas w) k = Some t \<Longrightarrow>
   map_of (tareas (snd (crear_tarea F w n d a))) k = Some t"
  by (auto simp: crear_tarea_def guardar_todo_simps update_conv' dest: clave_presente
      split: sum.splits)

lemma tareas_asignar:
  "map_of (tareas w) k = Some t \<Longrightarrow>
   \<exists>t'. map_of (tareas (snd (asignar_usuario_tarea w a nu nt))) k = Some t' \<and>
        t_estado t' = t_estado t"
  by (auto simp: asignar_usuario_tarea_def guardar_todo_simps update_conv'
      agregar_usuario_simps split: option.splits)

lemma tareas_finalizar:
  "map_of (tareas w) k = Some t \<Longrightarrow>
   \<exists>t'. map_of (tareas (snd (finalizar_tarea w n))) k = Some t' \<and>
        (t_estado t' = t_estado t \<or>
         t_estado t \<noteq> ''finalizada'' \<and> t_estado t' = ''finalizada'')"
  by (auto simp: finalizar_tarea_def guardar_todo_simps update_conv' Let_def
      cambiar_estado_finalizada_def escribir_json_historico_def
      split: option.splits sum.splits if_splits)

lemma tareas_eliminar:
  "map_of (tareas w) k = Some t \<Longrightarrow>
   map_of (tareas (snd (eliminar_tarea w n))) k =
     (if n = k \<and> t_estado t = ''finalizada'' then None else Some t)"
  by (auto simp: eliminar_tarea_def guardar_todo_simps delete_conv' split: option.splits)

text \<open>
  One operation, seen from a task that is in the collection before it: the task is gone
  only after its own deletion, which needs it finished; otherwise its status is the same
  or has become 'finalizada'.
\<close>

lemma ejecutar_estado:
  assumes "map_of (tareas w) k = Some t"
  shows "(case map_of (tareas (ejecutar L F op w)) k of
            None \<Rightarrow> op = Op_eliminar_tarea k \<and> t_estado t = ''finalizada''
          | Some t' \<Rightarrow> t_estado t' = t_estado t \<or>
                       t_estado t \<noteq> ''finalizada'' \<and> t_estado t' = ''finalizada'')"
proof (cases op)
  case (Op_crear_usuario n nv r pw)
  then show ?thesis using assms by (simp add: tareas_crear_usuario)
next
  case (Op_resetear_password_usuario a n)
  then show ?thesis using assms by (simp add: tareas_resetear)
next
  case (Op_crear_tarea n d a)
  then show ?thesis using tareas_crear_tarea [OF assms, of F n d a] by simp
next
  case (Op_asignar_usuario_tarea a nu nt)
  then show ?thesis using tareas_asignar [OF assms, of a nu nt] by auto
next
  case (Op_finalizar_tarea n)
  then show ?thesis using tareas_finalizar [OF assms, of n] by auto
next
  case (Op_eliminar_tarea n)
  then show ?thesis using tareas_eliminar [OF assms, of n] by auto
qed

lemma estado_avanza_todas:
  "map_of (tareas w) k = Some t \<Longrightarrow> Op_eliminar_tarea k \<notin> snd ` set ops \<Longrightarrow>
   \<exists>t'. map_of (tareas (ejecutar_todas L ops w)) k = Some t' \<and>
        (t_estado t' = t_estado t \<or> t_estado t' = ''finalizada'')"
proof (induction ops arbitrary: w t)
  case Nil
  then show ?case by simp
next
  case (Cons fo ops)
  obtain F op where fo: "fo = (F, op)" by (cases fo)
  from Cons.prems fo have ne: "op \<noteq> Op_eliminar_tarea k" by auto
  from ejecutar_estado [OF Cons.prems(1), where L = L and F = F and op = op] ne
  obtain t1 where t1: "map_of (tareas (ejecutar L F op w)) k = Some t1"
    and e1: "t_estado t1 = t_estado t \<or> t_estado t1 = ''finalizada''"
    by (auto split: option.splits)
  from Cons.prems(2) have "Op_eliminar_tarea k \<notin> snd ` set ops" by auto
  from Cons.IH [OF t1 this] e1 show ?case by (auto simp: fo)
qed

lemma finalizar_dos_veces:
  assumes "map_of (tareas w) k = Some t" "t_estado t \<noteq> ''finalizada''"
  shows "fst (finalizar_tarea w k) = Inr () \<and>
         map_of (tareas (snd (finalizar_tarea w k))) k
           = Some (t\<lparr>t_estado := ''finalizada''\<rparr>) \<and>
         finalizar_tarea (snd (finalizar_tarea w k)) k
           = (Inl Tarea_StateError, snd (finalizar_tarea w k))"
proof -
  have 1: "fst (finalizar_tarea w k) = Inr ()"
    using assms by (simp add: finalizar_tarea_def cambiar_estado_finalizada_def Let_def)
  have 2: "map_of (tareas (snd (finalizar_tarea w k))) k
             = Some (t\<lparr>t_estado := ''finalizada''\<rparr>)"
    using assms by (simp add: finalizar_tarea_def cambiar_estado_finalizada_def Let_def
        guardar_todo_simps escribir_json_historico_def update_conv')
  have 3: "finalizar_tarea w' k = (Inl Tarea_StateError, w')"
    if "map_of (tareas w') k = Some t'" "t_estado t' = ''finalizada''" for w' t'
    using that by (simp add: finalizar_tarea_def cambiar_estado_finalizada_def)
  show ?thesis using 1 2 3 [OF 2] by simp
qed

lemma eliminar_pendiente:
  assumes "map_of (tareas w) k = Some t" "t_estado t \<noteq> ''finalizada''"
  shows "eliminar_tarea w k = (Inl (ValueError Msg_solo_eliminar_finalizadas), w)"
  using assms by (simp add: eliminar_tarea_def)

text \<open>
  C4: for a task stored under the name \<open>k\<close>: (1) after any one operation the task is
  either still stored, with the same status or with a status that went from not
  finished to 'finalizada', or it is gone, and then the operation was its deletion and
  it was finished; (2) after any sequence of operations that does not delete \<open>k\<close> the
  task is still stored and its status is the one it had or 'finalizada', so a finished
  task stays finished; (3) if the task is not finished, \<open>finalizar_tarea\<close> succeeds and
  a second \<open>finalizar_tarea\<close> fails with the state error of the task entity, leaving
  the state as it was; (4) if the task is not finished, \<open>eliminar_tarea\<close> raises
  \<open>ValueError\<close> ("Solo se pueden eliminar tareas finalizadas.", the state error) and
  leaves the state, the task in it, as it was.
\<close>

theorem estado_solo_avanza:
  assumes "map_of (tareas w) k = Some t"
  shows
    "(case map_of (tareas (ejecutar L F op w)) k of
        None \<Rightarrow> op = Op_eliminar_tarea k \<and> t_estado t = ''finalizada''
      | Some t' \<Rightarrow> t_estado t' = t_estado t \<or>
                   t_estado t \<noteq> ''finalizada'' \<and> t_estado t' = ''finalizada'') \<and>
     (Op_eliminar_tarea k \<notin> snd ` set ops \<longrightarrow>
        (\<exists>t'. map_of (tareas (ejecutar_todas L ops w)) k = Some t' \<and>
              (t_estado t' = t_estado t \<or> t_estado t' = ''finalizada''))) \<and>
     (t_estado t \<noteq> ''finalizada'' \<longrightarrow>
        fst (finalizar_tarea w k) = Inr () \<and>
        map_of (tareas (snd (finalizar_tarea w k))) k
          = Some (t\<lparr>t_estado := ''finalizada''\<rparr>) \<and>
        finalizar_tarea (snd (finalizar_tarea w k)) k
          = (Inl Tarea_StateError, snd (finalizar_tarea w k))) \<and>
     (t_estado t \<noteq> ''finalizada'' \<longrightarrow>
        eliminar_tarea w k = (Inl (ValueError Msg_solo_eliminar_finalizadas), w))"
  using ejecutar_estado [OF assms] estado_avanza_todas [OF assms]
    finalizar_dos_veces [OF assms] eliminar_pendiente [OF assms]
  by blast

theorem estado_solo_avanza_witness:
  "map_of (tareas mundo_ejemplo) ''T1'' = Some tarea_t1 \<and>
   t_estado tarea_t1 \<noteq> ''finalizada'' \<and>
   Op_eliminar_tarea ''T1'' \<notin> snd ` set ops_ejemplo \<and>
   (\<exists>t'. map_of (tareas (ejecutar_todas lib_ejemplo ops_ejemplo mundo_ejemplo)) ''T1''
           = Some t' \<and>
         (t_estado t' = t_estado tarea_t1 \<or> t_estado t' = ''finalizada'')) \<and>
   fst (finalizar_tarea mundo_ejemplo ''T1'') = Inr () \<and>
   finalizar_tarea (snd (finalizar_tarea mundo_ejemplo ''T1'')) ''T1''
     = (Inl Tarea_StateError, snd (finalizar_tarea mundo_ejemplo ''T1'')) \<and>
   eliminar_tarea mundo_ejemplo ''T1''
     = (Inl (ValueError Msg_solo_eliminar_finalizadas), mundo_ejemplo)"
proof -
  have h: "map_of (tareas mundo_ejemplo) ''T1'' = Some tarea_t1"
    by (simp add: mundo_ejemplo_simps)
  have p: "t_estado tarea_t1 \<noteq> ''finalizada''"
    by (simp add: tarea_t1_def)
  have o: "Op_eliminar_tarea ''T1'' \<notin> snd ` set ops_ejemplo"
    by (simp add: ops_ejemplo_def)
  show ?thesis
    using h p o estado_solo_avanza [OF h, where ops = ops_ejemplo and L = lib_ejemplo]
    by simp
qed

section \<open>The archive of finished tasks (C5)\<close>

text \<open>
  C5: for a task stored under \<open>k\<close> with the status 'pendiente', \<open>finalizar_tarea\<close>
  returns; the archive afterwards is the archive before (empty when the file did not
  exist) with exactly one entry appended, the detail of the task as finished; the
  archive is written first, the two snapshot files after it, from the state in which the
  task is finished. A following \<open>eliminar_tarea\<close> of \<open>k\<close> returns, removes \<open>k\<close>
  from the tasks and leaves the archive as it is; and \<open>eliminar_tarea\<close> never changes
  the archive, in any state.
\<close>

theorem finalizar_tarea_archiva:
  assumes "map_of (tareas w) k = Some t" and "t_estado t = ''pendiente''"
  shows "\<exists>w'. finalizar_tarea w k = (Inr (), w') \<and>
     historico_json w' =
       Some (leer_json (historico_json w) []
             @ [obtener_detalle (t\<lparr>t_estado := ''finalizada''\<rparr>)]) \<and>
     escrituras w' =
       escrituras w @ [Escribe_historico, Escribe_usuarios_dat, Escribe_tareas_dat] \<and>
     map_of (tareas w') k = Some (t\<lparr>t_estado := ''finalizada''\<rparr>) \<and>
     usuarios_dat w' = Some (map snd (usuarios w')) \<and>
     tareas_dat w' = Some (map snd (tareas w')) \<and>
     (\<exists>w''. eliminar_tarea w' k = (Inr (), w'') \<and>
            map_of (tareas w'') k = None \<and>
            historico_json w'' = historico_json w' \<and>
            tareas_dat w'' = Some (map snd (tareas w''))) \<and>
     (\<forall>w0 n. historico_json (snd (eliminar_tarea w0 n)) = historico_json w0)"
proof -
  let ?t' = "t\<lparr>t_estado := ''finalizada''\<rparr>"
  let ?w1 = "w\<lparr>tareas := AList.update k ?t' (tareas w)\<rparr>"
  let ?w' = "guardar_todo (escribir_json_historico ?w1
               (leer_json (historico_json w) [] @ [obtener_detalle ?t']))"
  have r: "finalizar_tarea w k = (Inr (), ?w')"
    using assms by (simp add: finalizar_tarea_def cambiar_estado_finalizada_def Let_def)
  have m: "map_of (tareas ?w') k = Some ?t'"
    by (simp add: guardar_todo_simps escribir_json_historico_def update_conv')
  let ?w'' = "guardar_todo (?w'\<lparr>tareas := AList.delete k (tareas ?w')\<rparr>)"
  have e: "eliminar_tarea ?w' k = (Inr (), ?w'')"
    using m by (simp add: eliminar_tarea_def)
  have "historico_json ?w' =
       Some (leer_json (historico_json w) [] @ [obtener_detalle ?t'])"
    by (simp add: guardar_todo_simps escribir_json_historico_def)
  moreover have "escrituras ?w' =
       escrituras w @ [Escribe_historico, Escribe_usuarios_dat, Escribe_tareas_dat]"
    by (simp add: guardar_todo_simps escribir_json_historico_def)
  moreover have "usuarios_dat ?w' = Some (map snd (usuarios ?w'))"
    "tareas_dat ?w' = Some (map snd (tareas ?w'))"
    by (simp_all add: guardar_todo_simps)
  moreover have "map_of (tareas ?w'') k = None" "historico_json ?w'' = historico_json ?w'"
    "tareas_dat ?w'' = Some (map snd (tareas ?w''))"
    by (simp_all add: guardar_todo_simps delete_conv')
  moreover have "\<forall>w0 n. historico_json (snd (eliminar_tarea w0 n)) = historico_json w0"
    by (simp add: eliminar_tarea_def guardar_todo_simps split: option.splits)
  ultimately show ?thesis using r m e by blast
qed

theorem finalizar_tarea_archiva_witness:
  "map_of (tareas mundo_ejemplo) ''T1'' = Some tarea_t1 \<and>
   t_estado tarea_t1 = ''pendiente'' \<and>
   fst (finalizar_tarea mundo_ejemplo ''T1'') = Inr () \<and>
   historico_json (snd (finalizar_tarea mundo_ejemplo ''T1''))
     = Some [obtener_detalle (tarea_t1\<lparr>t_estado := ''finalizada''\<rparr>)] \<and>
   escrituras (snd (finalizar_tarea mundo_ejemplo ''T1''))
     = [Escribe_historico, Escribe_usuarios_dat, Escribe_tareas_dat] \<and>
   historico_json (snd (eliminar_tarea (snd (finalizar_tarea mundo_ejemplo ''T1'')) ''T1''))
     = Some [obtener_detalle (tarea_t1\<lparr>t_estado := ''finalizada''\<rparr>)] \<and>
   tareas (snd (eliminar_tarea (snd (finalizar_tarea mundo_ejemplo ''T1'')) ''T1'')) = []"
proof -
  have h: "map_of (tareas mundo_ejemplo) ''T1'' = Some tarea_t1"
    by (simp add: mundo_ejemplo_simps)
  have p: "t_estado tarea_t1 = ''pendiente''"
    by (simp add: tarea_t1_def)
  have d: "tareas (snd (eliminar_tarea (snd (finalizar_tarea mundo_ejemplo ''T1'')) ''T1''))
             = []"
    by (simp add: finalizar_tarea_def eliminar_tarea_def cambiar_estado_finalizada_def
        mundo_ejemplo_simps tarea_t1_def guardar_todo_simps escribir_json_historico_def
        Let_def)
  show ?thesis
    using h p d finalizar_tarea_archiva [OF h p]
    by (auto simp: mundo_ejemplo_simps leer_json_def)
qed

section \<open>Validation in the constructor of a user (C6)\<close>




section \<open>Serialization of a user (C7)\<close>

lemma to_dict_sin_hash:
  assumes "password_hash u = None"
  shows "to_dict L u = Inr \<lparr> d_id = id_usuario u, d_nombre = nombre u,
      d_nombre_visible = nombre_visible u, d_rol = rol u, d_password_hash = None,
      d_fecha_creacion = isoformat L (fecha_creacion u) \<rparr>"
  using assms by (simp add: to_dict_def)

lemma to_dict_con_hash:
  assumes "password_hash u = Some h" "decode_utf8 L h = Some s"
  shows "to_dict L u = Inr \<lparr> d_id = id_usuario u, d_nombre = nombre u,
      d_nombre_visible = nombre_visible u, d_rol = rol u, d_password_hash = Some s,
      d_fecha_creacion = isoformat L (fecha_creacion u) \<rparr>"
  using assms by (simp add: to_dict_def)

lemma from_dict_sin_hash:
  assumes "usuario_bien_formado u" "password_hash u = None"
    and "fromisoformat L ft = Some (fecha_creacion u)"
  shows "from_dict L F \<lparr> d_id = id_usuario u, d_nombre = nombre u,
      d_nombre_visible = nombre_visible u, d_rol = rol u, d_password_hash = None,
      d_fecha_creacion = ft \<rparr> = Inr u"
  using assms by (simp add: from_dict_def usuario_init_def usuario_bien_formado_def)

lemma from_dict_con_hash:
  assumes "usuario_bien_formado u" "password_hash u = Some h" "encode_utf8 L s = Some h"
    and "fromisoformat L ft = Some (fecha_creacion u)"
  shows "from_dict L F \<lparr> d_id = id_usuario u, d_nombre = nombre u,
      d_nombre_visible = nombre_visible u, d_rol = rol u, d_password_hash = Some s,
      d_fecha_creacion = ft \<rparr> = Inr u"
  using assms by (simp add: from_dict_def usuario_init_def usuario_bien_formado_def)

lemma usuario_init_sin_hashpw:
  "usuario_init (L\<lparr>hashpw := g\<rparr>) (F\<lparr>gensalt := s\<rparr>) n nv r None ui fc
     = usuario_init L F n nv r None ui fc"
  by (simp add: usuario_init_def split: option.splits)

text \<open>Deserialization never calls \<open>hashpw\<close> and never draws a salt.\<close>

lemma from_dict_sin_hashpw:
  "from_dict (L\<lparr>hashpw := g\<rparr>) (F\<lparr>gensalt := s\<rparr>) d = from_dict L F d"
  by (simp add: from_dict_def usuario_init_sin_hashpw cong: option.case_cong sum.case_cong)

lemma ida_y_vuelta_aux:
  assumes t: "to_dict L u = Inr d"
    and f: "from_dict L F d = Inr u"
    and c: "d_id d = id_usuario u \<and> d_nombre d = nombre u \<and>
           d_nombre_visible d = nombre_visible u \<and> d_rol d = rol u \<and>
           d_fecha_creacion d = isoformat L (fecha_creacion u) \<and>
           (d_password_hash d = None \<longleftrightarrow> password_hash u = None)"
  shows "\<exists>d. to_dict L u = Inr d \<and>
           d_id d = id_usuario u \<and> d_nombre d = nombre u \<and>
           d_nombre_visible d = nombre_visible u \<and> d_rol d = rol u \<and>
           d_fecha_creacion d = isoformat L (fecha_creacion u) \<and>
           (d_password_hash d = None \<longleftrightarrow> password_hash u = None) \<and>
           from_dict L F d = Inr u \<and>
           (\<forall>g s. from_dict (L\<lparr>hashpw := g\<rparr>) (F\<lparr>gensalt := s\<rparr>) d = Inr u) \<and>
           (\<forall>u' p. from_dict L F d = Inr u' \<longrightarrow>
                    verificar_password L u' p = verificar_password L u p)"
proof -
  have g: "\<forall>g s. from_dict (L\<lparr>hashpw := g\<rparr>) (F\<lparr>gensalt := s\<rparr>) d = Inr u"
    unfolding from_dict_sin_hashpw using f by blast
  have v: "\<forall>u' p. from_dict L F d = Inr u' \<longrightarrow>
                    verificar_password L u' p = verificar_password L u p"
    unfolding f by blast
  have "to_dict L u = Inr d \<and>
           d_id d = id_usuario u \<and> d_nombre d = nombre u \<and>
           d_nombre_visible d = nombre_visible u \<and> d_rol d = rol u \<and>
           d_fecha_creacion d = isoformat L (fecha_creacion u) \<and>
           (d_password_hash d = None \<longleftrightarrow> password_hash u = None) \<and>
           from_dict L F d = Inr u \<and>
           (\<forall>g s. from_dict (L\<lparr>hashpw := g\<rparr>) (F\<lparr>gensalt := s\<rparr>) d = Inr u) \<and>
           (\<forall>u' p. from_dict L F d = Inr u' \<longrightarrow>
                    verificar_password L u' p = verificar_password L u p)"
    using t c f g v by (elim conjE) (intro conjI; assumption)
  then show ?thesis by (rule exI)
qed

text \<open>
  The users of the class are well formed: the constructor yields no other (the string of
  a \<open>uuid4()\<close> is never empty), and the two methods that change a user keep it so.
\<close>

lemma cambiar_password_bien_formado:
  "cambiar_password L F u p = Inr u' \<Longrightarrow> usuario_bien_formado u \<Longrightarrow> usuario_bien_formado u'"
  by (auto simp: cambiar_password_def usuario_bien_formado_def
      split: if_splits option.splits sum.splits)

lemma usuario_init_bien_formado:
  assumes "usuario_init L F n nv r pw ui fc = Inr u" "uuid4 F \<noteq> []"
  shows "usuario_bien_formado u"
proof (cases pw)
  case None
  with assms show ?thesis
    by (auto simp: usuario_init_def usuario_bien_formado_def Let_def
        split: if_splits option.splits)
next
  case (Some p)
  let ?u0 = "\<lparr> id_usuario = (case ui of None \<Rightarrow> uuid4 F
                                | Some i \<Rightarrow> if i = [] then uuid4 F else i),
                nombre = n, nombre_visible = nv, rol = r,
                fecha_creacion = (case fc of None \<Rightarrow> now F | Some d \<Rightarrow> d),
                password_hash = None \<rparr>"
  from assms Some have v: "n \<noteq> []" "r \<in> set [''user'', ''supervisor'', ''admin'']"
    and c: "cambiar_password L F ?u0 p = Inr u"
    by (auto simp: usuario_init_def Let_def split: if_splits)
  from v assms(2) have "usuario_bien_formado ?u0"
    by (auto simp: usuario_bien_formado_def split: option.splits)
  with c show ?thesis by (rule cambiar_password_bien_formado)
qed

lemma resetear_password_bien_formado:
  "usuario_bien_formado u \<Longrightarrow> usuario_bien_formado (resetear_password u)"
  by (simp add: resetear_password_def usuario_bien_formado_def)

text \<open>
  C7: for every user of the class (name not empty, role one of the three, identifier
  not empty), with the library's codecs inverse to each other on the values stored
  (\<open>fromisoformat\<close> reads back what \<open>isoformat\<close> writes for the creation date; the
  stored hash, if any, decodes as UTF-8 and encodes back to itself, as the ASCII output
  of bcrypt does): \<open>to_dict\<close> succeeds, its record carries the identifier, the name,
  the visible name, the role and the date of the user, and a hash exactly when the user
  has one; \<open>from_dict\<close> on that record returns the same user, field by field, whatever
  the environment draws; the result does not depend on \<open>hashpw\<close> or on the salt, so
  nothing is hashed again; and \<open>verificar_password\<close> answers on the result what it
  answers on the original, for every password.
\<close>

theorem usuario_ida_y_vuelta:
  assumes bf: "usuario_bien_formado u"
    and fi: "fromisoformat L (isoformat L (fecha_creacion u)) = Some (fecha_creacion u)"
    and utf: "\<forall>h. password_hash u = Some h \<longrightarrow>
               (\<exists>s. decode_utf8 L h = Some s \<and> encode_utf8 L s = Some h)"
  shows "\<exists>d. to_dict L u = Inr d \<and>
           d_id d = id_usuario u \<and> d_nombre d = nombre u \<and>
           d_nombre_visible d = nombre_visible u \<and> d_rol d = rol u \<and>
           d_fecha_creacion d = isoformat L (fecha_creacion u) \<and>
           (d_password_hash d = None \<longleftrightarrow> password_hash u = None) \<and>
           from_dict L F d = Inr u \<and>
           (\<forall>g s. from_dict (L\<lparr>hashpw := g\<rparr>) (F\<lparr>gensalt := s\<rparr>) d = Inr u) \<and>
           (\<forall>u' p. from_dict L F d = Inr u' \<longrightarrow>
                    verificar_password L u' p = verificar_password L u p)"
proof (cases "password_hash u")
  case None
  show ?thesis
  proof (rule ida_y_vuelta_aux)
    show "to_dict L u = Inr \<lparr> d_id = id_usuario u, d_nombre = nombre u,
      d_nombre_visible = nombre_visible u, d_rol = rol u, d_password_hash = None,
      d_fecha_creacion = isoformat L (fecha_creacion u) \<rparr>"
      by (rule to_dict_sin_hash [OF None])
    show "from_dict L F \<lparr> d_id = id_usuario u, d_nombre = nombre u,
      d_nombre_visible = nombre_visible u, d_rol = rol u, d_password_hash = None,
      d_fecha_creacion = isoformat L (fecha_creacion u) \<rparr> = Inr u"
      by (rule from_dict_sin_hash [OF bf None fi])
  qed (simp add: None)
next
  case (Some h)
  with utf obtain s where s: "decode_utf8 L h = Some s" "encode_utf8 L s = Some h"
    by blast
  show ?thesis
  proof (rule ida_y_vuelta_aux)
    show "to_dict L u = Inr \<lparr> d_id = id_usuario u, d_nombre = nombre u,
      d_nombre_visible = nombre_visible u, d_rol = rol u, d_password_hash = Some s,
      d_fecha_creacion = isoformat L (fecha_creacion u) \<rparr>"
      by (rule to_dict_con_hash [OF Some s(1)])
    show "from_dict L F \<lparr> d_id = id_usuario u, d_nombre = nombre u,
      d_nombre_visible = nombre_visible u, d_rol = rol u, d_password_hash = Some s,
      d_fecha_creacion = isoformat L (fecha_creacion u) \<rparr> = Inr u"
      by (rule from_dict_con_hash [OF bf Some s(2) fi])
  qed (simp add: Some)
qed

theorem usuario_ida_y_vuelta_witness:
  "usuario_bien_formado usuario_beto \<and>
   fromisoformat lib_ejemplo (isoformat lib_ejemplo (fecha_creacion usuario_beto))
     = Some (fecha_creacion usuario_beto) \<and>
   password_hash usuario_beto = Some ''$$clave'' \<and>
   decode_utf8 lib_ejemplo ''$$clave'' = Some ''$$clave'' \<and>
   encode_utf8 lib_ejemplo ''$$clave'' = Some ''$$clave'' \<and>
   (\<exists>d. to_dict lib_ejemplo usuario_beto = Inr d \<and>
        d_password_hash d = Some ''$$clave'' \<and>
        from_dict lib_ejemplo fresh_ejemplo d = Inr usuario_beto)"
proof -
  have bf: "usuario_bien_formado usuario_beto"
    by (simp add: usuario_bien_formado_def usuario_beto_def)
  have fi: "fromisoformat lib_ejemplo (isoformat lib_ejemplo (fecha_creacion usuario_beto))
     = Some (fecha_creacion usuario_beto)"
    by (simp add: lib_ejemplo_def)
  have ph: "password_hash usuario_beto = Some ''$$clave''"
    by (simp add: usuario_beto_def)
  have dc: "decode_utf8 lib_ejemplo ''$$clave'' = Some ''$$clave''"
    and ec: "encode_utf8 lib_ejemplo ''$$clave'' = Some ''$$clave''"
    by (simp_all add: lib_ejemplo_def)
  have utf: "\<forall>h. password_hash usuario_beto = Some h \<longrightarrow>
        (\<exists>s. decode_utf8 lib_ejemplo h = Some s \<and> encode_utf8 lib_ejemplo s = Some h)"
    using ph dc ec by simp
  from usuario_ida_y_vuelta [OF bf fi utf, of fresh_ejemplo]
  obtain d where d: "to_dict lib_ejemplo usuario_beto = Inr d"
    "from_dict lib_ejemplo fresh_ejemplo d = Inr usuario_beto"
    by blast
  from d(1) ph dc have "d_password_hash d = Some ''$$clave''"
    by (auto simp: to_dict_def)
  with d have "\<exists>d. to_dict lib_ejemplo usuario_beto = Inr d \<and>
        d_password_hash d = Some ''$$clave'' \<and>
        from_dict lib_ejemplo fresh_ejemplo d = Inr usuario_beto"
    by blast
  with bf fi ph dc ec show ?thesis by blast
qed

section \<open>Setting and verifying a password (C8)\<close>








section \<open>Authorization comes first (C9)\<close>

text \<open>
  C9: in \<open>resetear_password_usuario\<close>, \<open>crear_tarea\<close> and \<open>asignar_usuario_tarea\<close> the
  check of the actor's role comes before every lookup: an actor who is not admin (for
  the reset), or neither admin nor supervisor (for the other two), gets
  \<open>PermissionError\<close> whatever the names are (missing target, duplicate task name), and
  the state after the call is the state before it: both dictionaries, the files and the
  record of writes.
\<close>

theorem autorizacion_primero:
  "(\<not> es_admin actor \<longrightarrow>
      resetear_password_usuario w actor n = (Inl (PermissionError Msg_solo_admin_resetea), w)) \<and>
   (\<not> (es_admin actor \<or> es_supervisor actor) \<longrightarrow>
      crear_tarea F w n d actor = (Inl (PermissionError Msg_solo_admin_supervisor_crean), w)) \<and>
   (\<not> (es_admin actor \<or> es_supervisor actor) \<longrightarrow>
      asignar_usuario_tarea w actor nu nt = (Inl (PermissionError Msg_sin_permiso_asignar), w))"
  by (simp add: resetear_password_usuario_def crear_tarea_def asignar_usuario_tarea_def)

theorem autorizacion_primero_witness:
  "\<not> es_admin usuario_ana \<and> \<not> (es_admin usuario_ana \<or> es_supervisor usuario_ana) \<and>
   map_of (usuarios mundo_ejemplo) ''nadie'' = None \<and>
   map_of (tareas mundo_ejemplo) ''T1'' = Some tarea_t1 \<and>
   map_of (tareas mundo_ejemplo) ''T9'' = None \<and>
   resetear_password_usuario mundo_ejemplo usuario_ana ''nadie''
     = (Inl (PermissionError Msg_solo_admin_resetea), mundo_ejemplo) \<and>
   crear_tarea fresh_ejemplo mundo_ejemplo ''T1'' ''otra vez'' usuario_ana
     = (Inl (PermissionError Msg_solo_admin_supervisor_crean), mundo_ejemplo) \<and>
   asignar_usuario_tarea mundo_ejemplo usuario_ana ''nadie'' ''T9''
     = (Inl (PermissionError Msg_sin_permiso_asignar), mundo_ejemplo)"
  using autorizacion_primero [where actor = usuario_ana and w = mundo_ejemplo
      and n = "''nadie''"]
    autorizacion_primero [where actor = usuario_ana and w = mundo_ejemplo
      and F = fresh_ejemplo and n = "''T1''" and d = "''otra vez''"]
    autorizacion_primero [where actor = usuario_ana and w = mundo_ejemplo
      and nu = "''nadie''" and nt = "''T9''"]
  by (simp add: mundo_ejemplo_simps es_admin_def es_supervisor_def usuario_ana_def)

section \<open>The dictionaries are keyed by name (C10)\<close>

lemma list_all_update:
  "list_all P al \<Longrightarrow> P (k, v) \<Longrightarrow> list_all P (AList.update k v al)"
  by (induction al) auto

lemma list_all_delete: "list_all P al \<Longrightarrow> list_all P (AList.delete k al)"
  by (induction al) auto

lemma list_all_dict_por_aux:
  "list_all (\<lambda>(k, x). key x = k) d \<Longrightarrow>
   list_all (\<lambda>(k, x). key x = k) (foldl (\<lambda>d x. AList.update (key x) x d) d xs)"
  by (induction xs arbitrary: d) (simp_all add: list_all_update)

lemma list_all_dict_por: "list_all (\<lambda>(k, x). key x = k) (dict_por key xs)"
  unfolding dict_por_def by (rule list_all_dict_por_aux) simp

lemma list_all_map_of:
  "list_all (\<lambda>(k, x). key x = k) al \<Longrightarrow> map_of al k = Some x \<Longrightarrow> key x = k"
  by (auto simp: list_all_iff dest!: map_of_SomeD)

lemma usuario_init_nombre:
  "usuario_init L F n nv r pw ui fc = Inr u \<Longrightarrow> nombre u = n"
  by (auto simp: usuario_init_def cambiar_password_def Let_def
      split: if_splits option.splits sum.splits)

lemma tarea_init_nombre: "tarea_init F n d = Inr t \<Longrightarrow> t_nombre t = n"
  by (auto simp: tarea_init_def split: if_splits)

lemma cambiar_estado_nombre:
  "cambiar_estado_finalizada t = Inr t' \<Longrightarrow> t_nombre t' = t_nombre t"
  by (auto simp: cambiar_estado_finalizada_def split: if_splits)

lemma claves_gestor_init: "claves_consistentes (gestor_init fu ft fh)"
  by (simp add: claves_consistentes_def gestor_init_def list_all_dict_por)

lemma claves_crear_usuario:
  "claves_consistentes w \<Longrightarrow> claves_consistentes (snd (crear_usuario L F w n nv r pw))"
  by (auto simp: claves_consistentes_def crear_usuario_def guardar_todo_simps
      list_all_update usuario_init_nombre split: sum.splits)

lemma claves_resetear:
  "claves_consistentes w \<Longrightarrow> claves_consistentes (snd (resetear_password_usuario w a n))"
  by (auto simp: claves_consistentes_def resetear_password_usuario_def guardar_todo_simps
      resetear_password_def intro!: list_all_update dest: list_all_map_of
      split: option.splits)

lemma claves_crear_tarea:
  "claves_consistentes w \<Longrightarrow> claves_consistentes (snd (crear_tarea F w n d a))"
  by (auto simp: claves_consistentes_def crear_tarea_def guardar_todo_simps
      list_all_update tarea_init_nombre split: sum.splits)

lemma claves_asignar:
  "claves_consistentes w \<Longrightarrow> claves_consistentes (snd (asignar_usuario_tarea w a nu nt))"
  by (auto simp: claves_consistentes_def asignar_usuario_tarea_def guardar_todo_simps
      agregar_usuario_simps intro!: list_all_update dest: list_all_map_of
      split: option.splits)

lemma claves_finalizar:
  "claves_consistentes w \<Longrightarrow> claves_consistentes (snd (finalizar_tarea w n))"
  by (auto simp: claves_consistentes_def finalizar_tarea_def guardar_todo_simps Let_def
      escribir_json_historico_def intro!: list_all_update
      dest: list_all_map_of cambiar_estado_nombre
      split: option.splits sum.splits)

lemma claves_eliminar:
  "claves_consistentes w \<Longrightarrow> claves_consistentes (snd (eliminar_tarea w n))"
  by (auto simp: claves_consistentes_def eliminar_tarea_def guardar_todo_simps
      list_all_delete split: option.splits)

lemma claves_ejecutar:
  "claves_consistentes w \<Longrightarrow> claves_consistentes (ejecutar L F op w)"
  by (cases op)
    (simp_all add: claves_crear_usuario claves_resetear claves_crear_tarea claves_asignar
      claves_finalizar claves_eliminar)

lemma claves_alcanzable: "alcanzable L w \<Longrightarrow> claves_consistentes w"
  by (induction rule: alcanzable.induct) (simp_all add: claves_gestor_init claves_ejecutar)

text \<open>
  C10: the state that \<open>__init__\<close> loads is keyed consistently, whatever the files hold;
  every operation, whether it returns or raises, takes a state keyed consistently to a
  state keyed consistently; hence in every state reachable by operations from a loaded
  state, a user found under the key \<open>k\<close> has the name \<open>k\<close> and a task found under the
  key \<open>k\<close> has the name \<open>k\<close>.
\<close>

theorem claves_consistentes_invariante:
  "claves_consistentes (gestor_init f_usuarios f_tareas f_historico) \<and>
   (claves_consistentes w \<longrightarrow> claves_consistentes (ejecutar L F op w)) \<and>
   (alcanzable L w \<longrightarrow>
      (\<forall>k u. map_of (usuarios w) k = Some u \<longrightarrow> nombre u = k) \<and>
      (\<forall>k t. map_of (tareas w) k = Some t \<longrightarrow> t_nombre t = k))"
proof (intro conjI impI allI)
  show "claves_consistentes (gestor_init f_usuarios f_tareas f_historico)"
    by (rule claves_gestor_init)
next
  assume "claves_consistentes w"
  then show "claves_consistentes (ejecutar L F op w)" by (rule claves_ejecutar)
next
  fix k u
  assume "alcanzable L w" and m: "map_of (usuarios w) k = Some u"
  then have "list_all (\<lambda>(k, u). nombre u = k) (usuarios w)"
    using claves_alcanzable by (simp add: claves_consistentes_def)
  from list_all_map_of [OF this m] show "nombre u = k" .
next
  fix k t
  assume "alcanzable L w" and m: "map_of (tareas w) k = Some t"
  then have "list_all (\<lambda>(k, t). t_nombre t = k) (tareas w)"
    using claves_alcanzable by (simp add: claves_consistentes_def)
  from list_all_map_of [OF this m] show "t_nombre t = k" .
qed

theorem claves_consistentes_invariante_witness:
  "claves_consistentes mundo_ejemplo \<and>
   claves_consistentes
     (ejecutar lib_ejemplo fresh_ejemplo (Op_crear_tarea ''T2'' ''segunda'' usuario_root)
        mundo_ejemplo) \<and>
   alcanzable lib_ejemplo
     (ejecutar lib_ejemplo fresh_ejemplo (Op_crear_tarea ''T2'' ''segunda'' usuario_root)
        mundo_ejemplo) \<and>
   map_of (usuarios
       (ejecutar lib_ejemplo fresh_ejemplo (Op_crear_tarea ''T2'' ''segunda'' usuario_root)
          mundo_ejemplo)) ''ana'' = Some usuario_ana \<and>
   nombre usuario_ana = ''ana'' \<and>
   map_of (tareas
       (ejecutar lib_ejemplo fresh_ejemplo (Op_crear_tarea ''T2'' ''segunda'' usuario_root)
          mundo_ejemplo)) ''T2'' = Some tarea_t2 \<and>
   t_nombre tarea_t2 = ''T2''"
proof -
  let ?op = "Op_crear_tarea ''T2'' ''segunda'' usuario_root"
  let ?w = "ejecutar lib_ejemplo fresh_ejemplo ?op mundo_ejemplo"
  have c: "claves_consistentes mundo_ejemplo"
    by (simp add: claves_consistentes_def mundo_ejemplo_simps usuario_root_def
        usuario_ana_def usuario_beto_def tarea_t1_def)
  have "alcanzable lib_ejemplo mundo_ejemplo"
    unfolding mundo_ejemplo_def by (rule alcanzable.inicial)
  then have a: "alcanzable lib_ejemplo ?w"
    by (rule alcanzable.paso)
  have u: "map_of (usuarios ?w) ''ana'' = Some usuario_ana"
    by (simp add: crear_tarea_def es_admin_def usuario_root_def tarea_init_def
        guardar_todo_simps mundo_ejemplo_simps)
  have t: "map_of (tareas ?w) ''T2'' = Some tarea_t2"
    by (simp add: crear_tarea_def es_admin_def usuario_root_def tarea_init_def
        guardar_todo_simps mundo_ejemplo_simps fresh_ejemplo_def tarea_t2_def)
  show ?thesis
    using c a u t
      claves_consistentes_invariante [where w = mundo_ejemplo and L = lib_ejemplo
        and F = fresh_ejemplo and op = ?op]
      claves_consistentes_invariante [where L = lib_ejemplo and w = ?w]
    by blast
qed

end
